theory Spec2Isabelle
  imports Main "HOL-Library.Word" "HOL-Library.Finite_Map" "HOL-Library.Log_Nat"
begin

unbundle bit_operations_syntax

section \<open>The per-tenant Alertmanager of pkg/services/ngalert/notifier/alertmanager.go\<close>

text \<open>
  A shallow embedding of \<^verbatim>\<open>alertmanager.go\<close>. Go values are modelled as follows.
  \<^item> A Go \<^verbatim>\<open>string\<close> and a \<^verbatim>\<open>[]byte\<close> holding text (the serialized configuration) are
    both byte sequences; the conversions \<^verbatim>\<open>[]byte(s)\<close> and \<^verbatim>\<open>string(b)\<close> copy the bytes,
    so both are \<^typ>\<open>string\<close> here and the conversions are the identity. A \<^verbatim>\<open>nil\<close> slice
    is \<open>None\<close>.
  \<^item> An \<^verbatim>\<open>error\<close> is represented by its message, \<^verbatim>\<open>nil\<close> by \<open>None\<close>;
    \<^verbatim>\<open>fmt.Errorf("p: %w", err)\<close> has the message \<^verbatim>\<open>p: \<close> followed by the message of \<^verbatim>\<open>err\<close>.
  \<^item> Go's \<^verbatim>\<open>int\<close> is a 64-bit word, \<^verbatim>\<open>byte\<close> an 8-bit word, \<^verbatim>\<open>[16]byte\<close> a byte list of
    length 16.
  \<^item> A Go \<^verbatim>\<open>map[string]T\<close> is a finite map; \<^verbatim>\<open>len\<close> of it is the number of its keys.
\<close>

type_synonym byte = "8 word"
type_synonym go_int = "64 word"
type_synonym error = string

subsection \<open>Routes, inhibit rules and the user configuration\<close>

datatype MatchType = MatchEqual | MatchNotEqual | MatchRegexp | MatchNotRegexp

text \<open>A label matcher of the Alertmanager library (type, label name, value).\<close>

datatype Matcher = Matcher MatchType string string

text \<open>
  \<^verbatim>\<open>apimodels.Route\<close>: the receiver name, the four matcher styles read by
  \<^verbatim>\<open>aggregateRouteMatchers\<close> in the order of the struct of the counters
  (\<^verbatim>\<open>Matchers\<close>, \<^verbatim>\<open>MatchRE\<close>, \<^verbatim>\<open>Match\<close>, \<^verbatim>\<open>ObjectMatchers\<close>) and the child routes.
  \<^verbatim>\<open>Match\<close> and \<^verbatim>\<open>MatchRE\<close> are Go maps from label name to value or regular
  expression. A route pointer of a validated configuration is never \<^verbatim>\<open>nil\<close>
  (loading rejects a configuration without a root route), so the type has no \<^verbatim>\<open>nil\<close>
  route.
\<close>

datatype Route =
  RouteNode string "Matcher list" "(string, string) fmap" "(string, string) fmap"
    "Matcher list" "Route list"

text \<open>\<^verbatim>\<open>config.InhibitRule\<close>, with the fields \<^verbatim>\<open>aggregateInhibitMatchers\<close> reads.\<close>

record InhibitRule =
  SourceMatch :: "(string, string) fmap"
  SourceMatchRE :: "(string, string) fmap"
  SourceMatchers :: "Matcher list"
  TargetMatch :: "(string, string) fmap"
  TargetMatchRE :: "(string, string) fmap"
  TargetMatchers :: "Matcher list"

record PostableApiAlertingConfig =
  Route :: Route
  InhibitRules :: "InhibitRule list"
  Templates :: "string list"
  Receivers :: "string list"

text \<open>
  \<^verbatim>\<open>apimodels.PostableUserConfig\<close>. \<^verbatim>\<open>TemplateFiles\<close> is a Go map that may be \<^verbatim>\<open>nil\<close>:
  \<open>None\<close> is the \<^verbatim>\<open>nil\<close> map, \<open>Some m\<close> an allocated one.
\<close>

record PostableUserConfig =
  TemplateFiles :: "(string, string) fmap option"
  AlertmanagerConfig :: PostableApiAlertingConfig

subsection \<open>Matcher usage\<close>

record AggregateMatchersUsage =
  Matchers :: go_int
  MatchRE :: go_int
  Match :: go_int
  ObjectMatchers :: go_int

text \<open>Go's \<^verbatim>\<open>len\<close> as an \<^verbatim>\<open>int\<close>, for a slice and for a map.\<close>

definition len :: "'a list \<Rightarrow> go_int" where
  "len xs = of_nat (length xs)"

definition len_map :: "('k, 'v) fmap \<Rightarrow> go_int" where
  "len_map m = of_nat (fcard (fmdom m))"

text \<open>
  \<^verbatim>\<open>aggregateRouteMatchers(r, amu)\<close>: the four counters of \<^verbatim>\<open>amu\<close> are increased by the
  lengths at \<^verbatim>\<open>r\<close>, then the loop over \<^verbatim>\<open>r.Routes\<close> recurses into each child in order with
  the same accumulator. The accumulator is passed by pointer in the source and returned
  here.
\<close>

fun aggregateRouteMatchers :: "Route \<Rightarrow> AggregateMatchersUsage \<Rightarrow> AggregateMatchersUsage" where
  "aggregateRouteMatchers (RouteNode receiver matchers matchRE match objectMatchers routes) amu =
     fold aggregateRouteMatchers routes
       (amu\<lparr>Matchers := Matchers amu + len matchers,
            MatchRE := MatchRE amu + len_map matchRE,
            Match := Match amu + len_map match,
            ObjectMatchers := ObjectMatchers amu + len objectMatchers\<rparr>)"

text \<open>\<^verbatim>\<open>aggregateInhibitMatchers(rules, amu)\<close>: one loop over the rules.\<close>

definition aggregateInhibitMatchers ::
  "InhibitRule list \<Rightarrow> AggregateMatchersUsage \<Rightarrow> AggregateMatchersUsage" where
  "aggregateInhibitMatchers rules amu =
     fold (\<lambda>r a.
        a\<lparr>Matchers := Matchers a + len (SourceMatchers r) + len (TargetMatchers r),
          MatchRE := MatchRE a + len_map (SourceMatchRE r) + len_map (TargetMatchRE r),
          Match := Match a + len_map (SourceMatch r) + len_map (TargetMatch r)\<rparr>) rules amu"

text \<open>
  The routes of a tree, the root first: what "the root and all descendant routes" of the
  specification ranges over. The four functions after it give the number of matchers of
  each style at one route.
\<close>

fun all_routes :: "Route \<Rightarrow> Route list" where
  "all_routes (RouteNode receiver matchers matchRE match objectMatchers routes) =
     RouteNode receiver matchers matchRE match objectMatchers routes #
     concat (map all_routes routes)"

fun count_Matchers :: "Route \<Rightarrow> nat" where
  "count_Matchers (RouteNode receiver matchers matchRE match objectMatchers routes) =
     length matchers"

fun count_MatchRE :: "Route \<Rightarrow> nat" where
  "count_MatchRE (RouteNode receiver matchers matchRE match objectMatchers routes) =
     fcard (fmdom matchRE)"

fun count_Match :: "Route \<Rightarrow> nat" where
  "count_Match (RouteNode receiver matchers matchRE match objectMatchers routes) =
     fcard (fmdom match)"

fun count_ObjectMatchers :: "Route \<Rightarrow> nat" where
  "count_ObjectMatchers (RouteNode receiver matchers matchRE match objectMatchers routes) =
     length objectMatchers"

subsection \<open>The validation error of a batch of alerts\<close>

record PostableAlert =
  Labels :: "(string, string) fmap"
  Annotations :: "(string, string) fmap"

text \<open>\<^verbatim>\<open>Errors[i]\<close> refers to \<^verbatim>\<open>Alerts[i]\<close>; an entry of \<^verbatim>\<open>Errors\<close> is a non-nil error.\<close>

record AlertValidationError =
  Alerts :: "PostableAlert list"
  Errors :: "error list"

text \<open>
  \<^verbatim>\<open>AlertValidationError.Error()\<close>: \<^verbatim>\<open>errMsg\<close> starts empty; when \<^verbatim>\<open>Errors\<close> is not empty it
  becomes the message of \<^verbatim>\<open>Errors[0]\<close>, and the loop over \<^verbatim>\<open>Errors[1:]\<close> appends a
  semicolon and the message of each further error.
\<close>

definition AlertValidationError_Error :: "AlertValidationError \<Rightarrow> string" where
  "AlertValidationError_Error e =
     (let errMsg = '''' in
      if length (Errors e) \<noteq> 0
      then fold (\<lambda>e' errMsg. errMsg @ '';'' @ e') (drop 1 (Errors e)) (hd (Errors e))
      else errMsg)"

subsection \<open>The configuration hash as a metric value\<close>

text \<open>
  \<^verbatim>\<open>binary.LittleEndian.Uint64(b)\<close> of the Go library:
  \<^verbatim>\<open>uint64(b[0]) | uint64(b[1])<<8 | ... | uint64(b[7])<<56\<close>. It is called on a slice of
  length 8 only.
\<close>

definition LittleEndian_Uint64 :: "byte list \<Rightarrow> 64 word" where
  "LittleEndian_Uint64 b =
     (ucast (b ! 0) OR push_bit 8 (ucast (b ! 1)) OR push_bit 16 (ucast (b ! 2)) OR
      push_bit 24 (ucast (b ! 3)) OR push_bit 32 (ucast (b ! 4)) OR
      push_bit 40 (ucast (b ! 5)) OR push_bit 48 (ucast (b ! 6)) OR
      push_bit 56 (ucast (b ! 7)))"

text \<open>
  Go's \<^verbatim>\<open>copy(dst, src)\<close>: the first \<^verbatim>\<open>min(len(dst), len(src))\<close> elements of \<^verbatim>\<open>dst\<close> are
  overwritten by those of \<^verbatim>\<open>src\<close>. The new contents of \<^verbatim>\<open>dst\<close> are returned.
\<close>

definition copy :: "'a list \<Rightarrow> 'a list \<Rightarrow> 'a list" where
  "copy dst src =
     take (min (length dst) (length src)) src @ drop (min (length dst) (length src)) dst"

text \<open>
  The conversion \<^verbatim>\<open>float64(x)\<close> of a \<^verbatim>\<open>uint64\<close>, as the number the resulting float denotes
  (always a natural number). A float64 has a significand of 53 bits: a value below
  \<open>2 ^ 53\<close> is kept as it is, a larger one is rounded to 53 significant bits, to the
  nearest value and to the even significand on a tie.
\<close>

definition float64_of_uint64 :: "64 word \<Rightarrow> nat" where
  "float64_of_uint64 x =
     (let n = unat x in
      if n < 2 ^ 53 then n
      else
        let e = floorlog 2 n - 53;
            q = n div 2 ^ e;
            r = n mod 2 ^ e;
            h = 2 ^ (e - 1)
        in (if h < r \<or> (r = h \<and> odd q) then q + 1 else q) * 2 ^ e)"

text \<open>
  \<^verbatim>\<open>hashAsMetricValue(data [16]byte)\<close>: \<^verbatim>\<open>smallSum := data[0:6]\<close>, a zeroed slice of 8
  bytes, \<^verbatim>\<open>copy(bytes, smallSum)\<close>, and the float64 of the little-endian \<^verbatim>\<open>uint64\<close>.
\<close>

definition hashAsMetricValue :: "byte list \<Rightarrow> nat" where
  "hashAsMetricValue data =
     (let smallSum = take 6 data;
          bytes = copy (replicate 8 0) smallSum
      in float64_of_uint64 (LittleEndian_Uint64 bytes))"

subsection \<open>The database commands and the collaborators of the Alertmanager\<close>

text \<open>
  \<^verbatim>\<open>ngmodels.AlertConfiguration\<close>, the database record, with the two fields
  \<^verbatim>\<open>ApplyConfig\<close> reads.
\<close>

record AlertConfiguration =
  dbCfg_AlertmanagerConfiguration :: string
  dbCfg_ConfigurationHash :: string

record SaveAlertmanagerConfigurationCmd =
  AlertmanagerConfiguration :: string
  Default :: bool
  ConfigurationVersion :: string
  OrgID :: "64 word"
  LastApplied :: "64 word"

record MarkConfigurationAsAppliedCmd =
  mark_OrgID :: "64 word"
  mark_ConfigurationHash :: string

text \<open>
  \<^verbatim>\<open>AlertingConfiguration\<close>, the argument of \<^verbatim>\<open>Base.ApplyConfig\<close>. Its two other fields
  are determined by the rest: \<^verbatim>\<open>receivers\<close> is computed from \<^verbatim>\<open>alertmanagerConfig\<close>, and
  \<^verbatim>\<open>receiverIntegrationsFunc\<close> is always the method \<^verbatim>\<open>buildReceiverIntegrations\<close>.
\<close>

record AlertingConfiguration =
  rawAlertmanagerConfig :: string
  alertmanagerConfig :: PostableApiAlertingConfig

text \<open>
  The gauges of \<^verbatim>\<open>metrics.AlertmanagerConfigMetrics\<close>. A matcher gauge holds the integer
  whose \<^verbatim>\<open>float64\<close> is set; \<^verbatim>\<open>ConfigHash\<close> is a gauge vector with one label, the decimal
  rendering of the organisation id, and is keyed by that id here.
\<close>

record AlertmanagerConfigMetrics =
  gauge_Matchers :: int
  gauge_MatchRE :: int
  gauge_Match :: int
  gauge_ObjectMatchers :: int
  gauge_ConfigHash :: "(64 word, nat) fmap"

text \<open>
  The calls that leave the file, to the Go library (\<^verbatim>\<open>json.Marshal\<close>, \<^verbatim>\<open>md5.Sum\<close>), to
  the embedded \<^verbatim>\<open>GrafanaAlertmanager\<close>, to the template persistence, to the database
  store, and the metric update. Each function of the model appends the calls it makes to
  the log of the instance, in the order of the source, so that "is invoked" and "is not
  invoked" are statements about the log.
\<close>

datatype call =
    Call_Load string
  | Call_json_Marshal_UserConfig PostableUserConfig
  | Call_json_Marshal_AlertingConfig PostableApiAlertingConfig
  | Call_md5_Sum string
  | Call_PersistTemplates PostableUserConfig
  | Call_Base_ApplyConfig AlertingConfiguration
  | Call_updateConfigMetrics
  | Call_SaveAlertmanagerConfigurationWithCallback SaveAlertmanagerConfigurationCmd
  | Call_MarkConfigurationAsApplied MarkConfigurationAsAppliedCmd

text \<open>
  The functions this file calls and does not define are parameters of the model. The
  state of the embedded \<^verbatim>\<open>GrafanaAlertmanager\<close> is of type \<open>'b\<close>, the files under the
  working directory are of type \<open>'d\<close>, the database is of type \<open>'s\<close>.
  \<^item> \<open>Load\<close>, \<open>json_Marshal_UserConfig\<close> (\<^verbatim>\<open>json.Marshal(&cfg)\<close>),
    \<open>json_Marshal_AlertingConfig\<close> (\<^verbatim>\<open>json.Marshal(cfg.AlertmanagerConfig)\<close>) and
    \<open>md5_Sum\<close> are pure.
  \<^item> \<open>PersistTemplates cfg dir\<close> reads the configuration, writes files and returns the
    paths and whether the template set changed, or an error.
  \<^item> \<open>Base_ApplyConfig\<close> reads the templates from the files and changes the embedded
    Alertmanager; \<open>Base_ConfigHash\<close> and \<open>Base_WorkingDirectory\<close> read it.
  \<^item> \<open>Store_insert\<close> is the database write of a configuration row and
    \<open>Store_MarkConfigurationAsApplied\<close> the method of that name.
  \<^item> \<open>DefaultTemplateString\<close> is the constant of the templates package,
    \<open>ConfigurationVersion_string\<close> the constant string
    \<^verbatim>\<open>fmt.Sprintf("v%d", ngmodels.AlertConfigurationVersion)\<close>, and \<open>time_Now_Unix\<close> the
    value of \<^verbatim>\<open>time.Now().UTC().Unix()\<close>.
\<close>

record ('b, 'd, 's) externals =
  Load :: "string \<Rightarrow> error + PostableUserConfig"
  json_Marshal_UserConfig :: "PostableUserConfig \<Rightarrow> error + string"
  json_Marshal_AlertingConfig :: "PostableApiAlertingConfig \<Rightarrow> error + string"
  md5_Sum :: "string \<Rightarrow> byte list"
  DefaultTemplateString :: string
  PersistTemplates :: "PostableUserConfig \<Rightarrow> string \<Rightarrow> 'd \<Rightarrow> (error + string list \<times> bool) \<times> 'd"
  Base_ConfigHash :: "'b \<Rightarrow> byte list"
  Base_WorkingDirectory :: "'b \<Rightarrow> string"
  Base_ApplyConfig :: "AlertingConfiguration \<Rightarrow> 'd \<Rightarrow> 'b \<Rightarrow> error option \<times> 'b"
  Store_insert :: "SaveAlertmanagerConfigurationCmd \<Rightarrow> 's \<Rightarrow> error + 's"
  Store_MarkConfigurationAsApplied :: "MarkConfigurationAsAppliedCmd \<Rightarrow> 's \<Rightarrow> error option \<times> 's"
  ConfigurationVersion_string :: string
  time_Now_Unix :: "64 word"

text \<open>
  The \<^verbatim>\<open>alertmanager\<close> struct: the embedded Alertmanager, the files of its working
  directory, the store, the metrics, the default configuration of the settings
  (\<^verbatim>\<open>Settings.UnifiedAlerting.DefaultConfiguration\<close>), the organisation id, and the log
  of calls. \<^verbatim>\<open>Base.WithLock(f)\<close> runs \<^verbatim>\<open>f\<close> under the lock of the instance; the model is
  sequential, so it is the call of \<^verbatim>\<open>f\<close>.
\<close>

record ('b, 'd, 's) alertmanager =
  Base :: 'b
  files :: 'd
  Store :: 's
  ConfigMetrics :: AlertmanagerConfigMetrics
  DefaultConfiguration :: string
  orgID :: "64 word"
  calls :: "call list"

definition record_call :: "call \<Rightarrow> ('b, 'd, 's) alertmanager \<Rightarrow> ('b, 'd, 's) alertmanager" where
  "record_call c am = am\<lparr>calls := calls am @ [c]\<rparr>"

subsection \<open>Metrics\<close>

text \<open>
  \<^verbatim>\<open>updateConfigMetrics(cfg)\<close>: a zero \<^verbatim>\<open>AggregateMatchersUsage\<close> is filled from the route
  tree and the inhibit rules, the four gauges are set, and the hash gauge of the
  organisation is set to \<^verbatim>\<open>hashAsMetricValue(am.Base.ConfigHash())\<close>.
\<close>

definition updateConfigMetrics ::
  "('b, 'd, 's) externals \<Rightarrow> PostableUserConfig \<Rightarrow> ('b, 'd, 's) alertmanager \<Rightarrow>
   ('b, 'd, 's) alertmanager" where
  "updateConfigMetrics ext cfg am =
     (let amu0 = \<lparr>Matchers = 0, MatchRE = 0, Match = 0, ObjectMatchers = 0\<rparr>;
          amu1 = aggregateRouteMatchers (Route (AlertmanagerConfig cfg)) amu0;
          amu = aggregateInhibitMatchers (InhibitRules (AlertmanagerConfig cfg)) amu1
      in record_call Call_updateConfigMetrics
           (am\<lparr>ConfigMetrics :=
              \<lparr>gauge_Matchers = sint (Matchers amu),
               gauge_MatchRE = sint (MatchRE amu),
               gauge_Match = sint (Match amu),
               gauge_ObjectMatchers = sint (ObjectMatchers amu),
               gauge_ConfigHash =
                 fmupd (orgID am) (hashAsMetricValue (Base_ConfigHash ext (Base am)))
                   (gauge_ConfigHash (ConfigMetrics am))\<rparr>\<rparr>))"

subsection \<open>Applying a configuration\<close>

text \<open>
  \<^verbatim>\<open>applyConfig(cfg, rawConfig)\<close> returns the pair of the source,
  \<^verbatim>\<open>(changed, err)\<close>, together with the configuration object (which the source mutates
  through the pointer \<^verbatim>\<open>cfg\<close>) and the instance. The steps are those of the source:
  \<^enum> when \<^verbatim>\<open>rawConfig\<close> is \<^verbatim>\<open>nil\<close>, serialize \<^verbatim>\<open>cfg.AlertmanagerConfig\<close>, and return
    \<^verbatim>\<open>(false, err)\<close> when that fails;
  \<^enum> compare \<^verbatim>\<open>Base.ConfigHash()\<close> with \<^verbatim>\<open>md5.Sum(rawConfig)\<close>;
  \<^enum> allocate \<^verbatim>\<open>cfg.TemplateFiles\<close> when it is \<^verbatim>\<open>nil\<close> and store the default template
    under \<^verbatim>\<open>__default__.tmpl\<close>;
  \<^enum> persist the templates, and return \<^verbatim>\<open>(false, err)\<close> when that fails;
  \<^enum> store the paths in \<^verbatim>\<open>cfg.AlertmanagerConfig.Templates\<close>;
  \<^enum> return \<^verbatim>\<open>(false, nil)\<close> when neither the configuration nor the templates changed;
  \<^enum> call \<^verbatim>\<open>Base.ApplyConfig\<close>, and return \<^verbatim>\<open>(false, err)\<close> when that fails;
  \<^enum> update the metrics and return \<^verbatim>\<open>(true, nil)\<close>.
\<close>

definition applyConfig ::
  "('b, 'd, 's) externals \<Rightarrow> PostableUserConfig \<Rightarrow> string option \<Rightarrow> ('b, 'd, 's) alertmanager \<Rightarrow>
   (bool \<times> error option) \<times> PostableUserConfig \<times> ('b, 'd, 's) alertmanager" where
  "applyConfig ext cfg rawConfig am =
     (case (case rawConfig of
              None \<Rightarrow>
                (json_Marshal_AlertingConfig ext (AlertmanagerConfig cfg),
                 record_call (Call_json_Marshal_AlertingConfig (AlertmanagerConfig cfg)) am)
            | Some raw \<Rightarrow> (Inr raw, am)) of
        (Inl err, am1) \<Rightarrow> ((False, Some err), cfg, am1)
      | (Inr raw, am1) \<Rightarrow>
          let am2 = record_call (Call_md5_Sum raw) am1;
              amConfigChanged = (Base_ConfigHash ext (Base am2) \<noteq> md5_Sum ext raw);
              templateFiles = (case TemplateFiles cfg of None \<Rightarrow> fmempty | Some m \<Rightarrow> m);
              cfg1 = cfg\<lparr>TemplateFiles :=
                       Some (fmupd ''__default__.tmpl'' (DefaultTemplateString ext) templateFiles)\<rparr>;
              (persisted, files') =
                 PersistTemplates ext cfg1 (Base_WorkingDirectory ext (Base am2)) (files am2);
              am3 = record_call (Call_PersistTemplates cfg1) (am2\<lparr>files := files'\<rparr>)
          in case persisted of
               Inl err \<Rightarrow> ((False, Some err), cfg1, am3)
             | Inr (paths, templatesChanged) \<Rightarrow>
                 let cfg2 = cfg1\<lparr>AlertmanagerConfig := (AlertmanagerConfig cfg1)\<lparr>Templates := paths\<rparr>\<rparr>
                 in if \<not> amConfigChanged \<and> \<not> templatesChanged then ((False, None), cfg2, am3)
                    else
                      let ac = \<lparr>rawAlertmanagerConfig = raw,
                                alertmanagerConfig = AlertmanagerConfig cfg2\<rparr>;
                          (err, base') = Base_ApplyConfig ext ac (files am3) (Base am3);
                          am4 = record_call (Call_Base_ApplyConfig ac) (am3\<lparr>Base := base'\<rparr>)
                      in case err of
                           Some e \<Rightarrow> ((False, Some e), cfg2, am4)
                         | None \<Rightarrow> ((True, None), cfg2, updateConfigMetrics ext cfg2 am4))"

text \<open>
  \<^verbatim>\<open>applyAndMarkConfig(ctx, hash, cfg, rawConfig)\<close>: the error of \<^verbatim>\<open>applyConfig\<close> is
  returned; when the configuration changed, the result of
  \<^verbatim>\<open>Store.MarkConfigurationAsApplied\<close> is returned; otherwise \<^verbatim>\<open>nil\<close>.
\<close>

definition applyAndMarkConfig ::
  "('b, 'd, 's) externals \<Rightarrow> string \<Rightarrow> PostableUserConfig \<Rightarrow> string option \<Rightarrow>
   ('b, 'd, 's) alertmanager \<Rightarrow> error option \<times> PostableUserConfig \<times> ('b, 'd, 's) alertmanager" where
  "applyAndMarkConfig ext hash cfg rawConfig am =
     (case applyConfig ext cfg rawConfig am of
        ((configChanged, Some err), cfg', am') \<Rightarrow> (Some err, cfg', am')
      | ((configChanged, None), cfg', am') \<Rightarrow>
          if configChanged then
            let markConfigCmd = \<lparr>mark_OrgID = orgID am', mark_ConfigurationHash = hash\<rparr>;
                (err, store') = Store_MarkConfigurationAsApplied ext markConfigCmd (Store am')
            in (err, cfg',
                record_call (Call_MarkConfigurationAsApplied markConfigCmd) (am'\<lparr>Store := store'\<rparr>))
          else (None, cfg', am'))"

text \<open>
  \<^verbatim>\<open>ApplyConfig(ctx, dbCfg)\<close>: the record is parsed; a parse error is wrapped and
  returned; otherwise the configuration is applied and marked with a \<^verbatim>\<open>nil\<close>
  \<^verbatim>\<open>rawConfig\<close>, and an error of that is wrapped and returned.
\<close>

definition ApplyConfig ::
  "('b, 'd, 's) externals \<Rightarrow> AlertConfiguration \<Rightarrow> ('b, 'd, 's) alertmanager \<Rightarrow>
   error option \<times> ('b, 'd, 's) alertmanager" where
  "ApplyConfig ext dbCfg am =
     (let am0 = record_call (Call_Load (dbCfg_AlertmanagerConfiguration dbCfg)) am in
      case Load ext (dbCfg_AlertmanagerConfiguration dbCfg) of
        Inl err \<Rightarrow> (Some (''failed to parse Alertmanager config: '' @ err), am0)
      | Inr cfg \<Rightarrow>
          (case applyAndMarkConfig ext (dbCfg_ConfigurationHash dbCfg) cfg None am0 of
             (Some err, cfg', am') \<Rightarrow> (Some (''unable to apply configuration: '' @ err), am')
           | (None, cfg', am') \<Rightarrow> (None, am')))"

subsection \<open>Saving and applying\<close>

text \<open>
  Modelled from the spec: the implementation of
  \<^verbatim>\<open>Store.SaveAlertmanagerConfigurationWithCallback\<close> is not among the sources (only the
  interface \<^verbatim>\<open>AlertingStore\<close> is named). The specification gives its contract: "callback
  invoked inside the same transaction scope conceptually; if callback errors, the save
  must not commit", and "the database write commits only if the callback succeeds; if it
  fails, the database transaction rolls back". So: the row is written (a failure of the
  write is returned and the callback does not run); the callback runs; when it returns
  an error the database is as it was before the call and that error is returned;
  otherwise the write stays and \<^verbatim>\<open>nil\<close> is returned. The callback is a closure over the
  configuration object and the instance, which are its state here.
\<close>

definition SaveAlertmanagerConfigurationWithCallback ::
  "('b, 'd, 's) externals \<Rightarrow> SaveAlertmanagerConfigurationCmd \<Rightarrow>
   (PostableUserConfig \<times> ('b, 'd, 's) alertmanager \<Rightarrow>
      error option \<times> PostableUserConfig \<times> ('b, 'd, 's) alertmanager) \<Rightarrow>
   PostableUserConfig \<times> ('b, 'd, 's) alertmanager \<Rightarrow>
   error option \<times> PostableUserConfig \<times> ('b, 'd, 's) alertmanager" where
  "SaveAlertmanagerConfigurationWithCallback ext cmd callback st =
     (case st of (cfg, am) \<Rightarrow>
        let am0 = record_call (Call_SaveAlertmanagerConfigurationWithCallback cmd) am in
        case Store_insert ext cmd (Store am0) of
          Inl err \<Rightarrow> (Some err, cfg, am0)
        | Inr store' \<Rightarrow>
            (case callback (cfg, am0\<lparr>Store := store'\<rparr>) of
               (Some err, cfg', am') \<Rightarrow> (Some err, cfg', am'\<lparr>Store := Store am\<rparr>)
             | (None, cfg', am') \<Rightarrow> (None, cfg', am')))"

text \<open>
  The callback of both save functions: \<^verbatim>\<open>_, err := am.applyConfig(cfg, raw); return err\<close>.
\<close>

definition applyConfig_callback ::
  "('b, 'd, 's) externals \<Rightarrow> string \<Rightarrow> PostableUserConfig \<times> ('b, 'd, 's) alertmanager \<Rightarrow>
   error option \<times> PostableUserConfig \<times> ('b, 'd, 's) alertmanager" where
  "applyConfig_callback ext raw st =
     (case st of (cfg, am) \<Rightarrow>
        (case applyConfig ext cfg (Some raw) am of ((changed, err), cfg', am') \<Rightarrow> (err, cfg', am')))"

text \<open>
  \<^verbatim>\<open>SaveAndApplyDefaultConfig(ctx)\<close>. \<^verbatim>\<open>outerErr\<close> starts as \<^verbatim>\<open>nil\<close>. The command is built
  from the default configuration; a parse error of the default configuration is assigned
  to \<^verbatim>\<open>outerErr\<close>; otherwise the store is called with the callback, and when it returns
  an error the source executes \<^verbatim>\<open>outerErr = nil\<close>. \<^verbatim>\<open>outerErr\<close> is returned.
\<close>

definition SaveAndApplyDefaultConfig ::
  "('b, 'd, 's) externals \<Rightarrow> ('b, 'd, 's) alertmanager \<Rightarrow> error option \<times> ('b, 'd, 's) alertmanager" where
  "SaveAndApplyDefaultConfig ext am =
     (let outerErr = None;
          cmd = \<lparr>AlertmanagerConfiguration = DefaultConfiguration am,
                 Default = True,
                 ConfigurationVersion = ConfigurationVersion_string ext,
                 OrgID = orgID am,
                 LastApplied = time_Now_Unix ext\<rparr>;
          am0 = record_call (Call_Load (DefaultConfiguration am)) am
      in case Load ext (DefaultConfiguration am) of
           Inl err \<Rightarrow> (Some err, am0)
         | Inr cfg \<Rightarrow>
             (case SaveAlertmanagerConfigurationWithCallback ext cmd
                     (applyConfig_callback ext (DefaultConfiguration am)) (cfg, am0) of
                (Some err, cfg', am') \<Rightarrow>
                  \<comment> \<open>\<^verbatim>\<open>if err != nil { outerErr = nil; return }\<close>\<close>
                  (let outerErr = None in (outerErr, am'))
              | (None, cfg', am') \<Rightarrow> (outerErr, am')))"

text \<open>
  \<^verbatim>\<open>SaveAndApplyConfig(ctx, cfg)\<close>. The configuration is serialized first; a failure is
  wrapped and returned. The command holds \<^verbatim>\<open>string(rawConfig)\<close>, the callback applies
  \<^verbatim>\<open>cfg\<close> with \<^verbatim>\<open>rawConfig\<close>, and an error of the store is assigned to \<^verbatim>\<open>outerErr\<close>, which
  is returned. The configuration object of the caller is returned as the call leaves it.
\<close>

definition SaveAndApplyConfig ::
  "('b, 'd, 's) externals \<Rightarrow> PostableUserConfig \<Rightarrow> ('b, 'd, 's) alertmanager \<Rightarrow>
   error option \<times> PostableUserConfig \<times> ('b, 'd, 's) alertmanager" where
  "SaveAndApplyConfig ext cfg am =
     (let am0 = record_call (Call_json_Marshal_UserConfig cfg) am in
      case json_Marshal_UserConfig ext cfg of
        Inl err \<Rightarrow>
          (Some (''failed to serialize to the Alertmanager configuration: '' @ err), cfg, am0)
      | Inr rawConfig \<Rightarrow>
          let outerErr = None;
              cmd = \<lparr>AlertmanagerConfiguration = rawConfig,
                     Default = False,
                     ConfigurationVersion = ConfigurationVersion_string ext,
                     OrgID = orgID am0,
                     LastApplied = time_Now_Unix ext\<rparr>
          in case SaveAlertmanagerConfigurationWithCallback ext cmd
                    (applyConfig_callback ext rawConfig) (cfg, am0) of
               (Some err, cfg', am') \<Rightarrow>
                 \<comment> \<open>\<^verbatim>\<open>if err != nil { outerErr = err; return }\<close>\<close>
                 (let outerErr = Some err in (outerErr, cfg', am'))
             | (None, cfg', am') \<Rightarrow> (outerErr, cfg', am'))"

subsection \<open>Stages of an apply, and the log\<close>

text \<open>
  Names for the intermediate values of \<^const>\<open>applyConfig\<close>, used to state its properties:
  the result of the serialization stage (the given bytes, or the serialized
  \<^verbatim>\<open>cfg.AlertmanagerConfig\<close>), the configuration after the default template has been
  stored in it, the result of the template persistence called on it, and the argument of
  \<^verbatim>\<open>Base.ApplyConfig\<close>.
\<close>

definition serialized ::
  "('b, 'd, 's) externals \<Rightarrow> PostableUserConfig \<Rightarrow> string option \<Rightarrow> error + string" where
  "serialized ext cfg rawConfig =
     (case rawConfig of
        None \<Rightarrow> json_Marshal_AlertingConfig ext (AlertmanagerConfig cfg)
      | Some raw \<Rightarrow> Inr raw)"

definition cfg_with_default_template ::
  "('b, 'd, 's) externals \<Rightarrow> PostableUserConfig \<Rightarrow> PostableUserConfig" where
  "cfg_with_default_template ext cfg =
     cfg\<lparr>TemplateFiles :=
       Some (fmupd ''__default__.tmpl'' (DefaultTemplateString ext)
              (case TemplateFiles cfg of None \<Rightarrow> fmempty | Some m \<Rightarrow> m))\<rparr>"

definition persisted ::
  "('b, 'd, 's) externals \<Rightarrow> PostableUserConfig \<Rightarrow> ('b, 'd, 's) alertmanager \<Rightarrow>
   (error + string list \<times> bool) \<times> 'd" where
  "persisted ext cfg am =
     PersistTemplates ext (cfg_with_default_template ext cfg)
       (Base_WorkingDirectory ext (Base am)) (files am)"

definition alerting_configuration ::
  "('b, 'd, 's) externals \<Rightarrow> PostableUserConfig \<Rightarrow> string \<Rightarrow> string list \<Rightarrow> AlertingConfiguration" where
  "alerting_configuration ext cfg raw paths =
     \<lparr>rawAlertmanagerConfig = raw,
      alertmanagerConfig =
        (AlertmanagerConfig (cfg_with_default_template ext cfg))\<lparr>Templates := paths\<rparr>\<rparr>"

text \<open>Whether a configuration object holds the default template.\<close>

definition has_default_template :: "('b, 'd, 's) externals \<Rightarrow> PostableUserConfig \<Rightarrow> bool" where
  "has_default_template ext cfg =
     (case TemplateFiles cfg of
        None \<Rightarrow> False
      | Some m \<Rightarrow> fmlookup m ''__default__.tmpl'' = Some (DefaultTemplateString ext))"

text \<open>The calls logged between two states of an instance, and kinds of calls.\<close>

definition calls_since ::
  "('b, 'd, 's) alertmanager \<Rightarrow> ('b, 'd, 's) alertmanager \<Rightarrow> call list" where
  "calls_since am am' = drop (length (calls am)) (calls am')"


fun is_PersistTemplates :: "call \<Rightarrow> bool" where
  "is_PersistTemplates (Call_PersistTemplates c) = True"
| "is_PersistTemplates c = False"

fun is_Base_ApplyConfig :: "call \<Rightarrow> bool" where
  "is_Base_ApplyConfig (Call_Base_ApplyConfig c) = True"
| "is_Base_ApplyConfig c = False"

fun is_updateConfigMetrics :: "call \<Rightarrow> bool" where
  "is_updateConfigMetrics Call_updateConfigMetrics = True"
| "is_updateConfigMetrics c = False"

fun is_MarkConfigurationAsApplied :: "call \<Rightarrow> bool" where
  "is_MarkConfigurationAsApplied (Call_MarkConfigurationAsApplied c) = True"
| "is_MarkConfigurationAsApplied c = False"


text \<open>A logged template persistence receives a configuration with the default template.\<close>

fun persists_default_template :: "('b, 'd, 's) externals \<Rightarrow> call \<Rightarrow> bool" where
  "persists_default_template ext (Call_PersistTemplates c) = has_default_template ext c"
| "persists_default_template ext c = True"

text \<open>The log entry of the serialization stage: one call when no bytes are given.\<close>

definition marshal_calls :: "PostableUserConfig \<Rightarrow> string option \<Rightarrow> call list" where
  "marshal_calls cfg rawConfig =
     (case rawConfig of
        None \<Rightarrow> [Call_json_Marshal_AlertingConfig (AlertmanagerConfig cfg)]
      | Some raw \<Rightarrow> [])"

text \<open>A usage record with four numbers added to its counters.\<close>

definition usage_add ::
  "AggregateMatchersUsage \<Rightarrow> nat \<Rightarrow> nat \<Rightarrow> nat \<Rightarrow> nat \<Rightarrow> AggregateMatchersUsage" where
  "usage_add amu a b c d =
     amu\<lparr>Matchers := Matchers amu + of_nat a, MatchRE := MatchRE amu + of_nat b,
         Match := Match amu + of_nat c, ObjectMatchers := ObjectMatchers amu + of_nat d\<rparr>"

subsection \<open>A concrete instance\<close>

text \<open>
  A configuration, collaborators with fixed answers and an instance, on which the
  theorems below are evaluated. The route tree is the one of the specification's
  example: a root with two object matchers and one child with one \<^verbatim>\<open>match\<close> and one
  \<^verbatim>\<open>match_re\<close> entry. The embedded Alertmanager is represented by its configuration
  hash, the files by the number of writes, the database by the list of saved
  configurations. The digest is a stand-in for MD5 (it depends on the length of its
  input only). The three parameters are the answer of the template persistence, the
  error of \<^verbatim>\<open>Base.ApplyConfig\<close> and the error of the database write.
\<close>

definition sample_route :: Route where
  "sample_route =
     RouteNode ''grafana-default-email'' [] fmempty fmempty
       [Matcher MatchEqual ''team'' ''storage'', Matcher MatchRegexp ''severity'' ''critical|page'']
       [RouteNode ''pager'' [] (fmupd ''alertname'' ''Disk.*'' fmempty)
          (fmupd ''severity'' ''page'' fmempty) [] []]"

definition sample_config :: PostableUserConfig where
  "sample_config =
     \<lparr>TemplateFiles = None,
      AlertmanagerConfig =
        \<lparr>Route = sample_route, InhibitRules = [], Templates = [''old.tmpl''],
         Receivers = [''grafana-default-email'', ''pager'']\<rparr>\<rparr>"

definition sample_digest :: "string \<Rightarrow> byte list" where
  "sample_digest s = replicate 16 (of_nat (length s))"

definition sample_externals ::
  "(error + string list \<times> bool) \<Rightarrow> error option \<Rightarrow> error option \<Rightarrow>
   (byte list, nat, string list) externals" where
  "sample_externals persist_answer apply_error insert_error =
     \<lparr>Load = (\<lambda>s. Inr sample_config),
      json_Marshal_UserConfig = (\<lambda>c. Inr ''user-config''),
      json_Marshal_AlertingConfig = (\<lambda>c. Inr ''alerting-config''),
      md5_Sum = sample_digest,
      DefaultTemplateString = ''default template'',
      PersistTemplates = (\<lambda>c dir n. (persist_answer, Suc n)),
      Base_ConfigHash = (\<lambda>b. b),
      Base_WorkingDirectory = (\<lambda>b. ''/data/alerting/1''),
      Base_ApplyConfig =
        (\<lambda>ac n b. case apply_error of
                     Some e \<Rightarrow> (Some e, b)
                   | None \<Rightarrow> (None, sample_digest (rawAlertmanagerConfig ac))),
      Store_insert =
        (\<lambda>cmd rows. case insert_error of
                       Some e \<Rightarrow> Inl e
                     | None \<Rightarrow> Inr (AlertmanagerConfiguration cmd # rows)),
      Store_MarkConfigurationAsApplied = (\<lambda>cmd rows. (None, rows)),
      ConfigurationVersion_string = ''v1'',
      time_Now_Unix = 1700000000\<rparr>"

definition sample_metrics :: AlertmanagerConfigMetrics where
  "sample_metrics =
     \<lparr>gauge_Matchers = 0, gauge_MatchRE = 0, gauge_Match = 0, gauge_ObjectMatchers = 0,
      gauge_ConfigHash = fmempty\<rparr>"

text \<open>An instance whose active configuration hash is the digest of \<open>active\<close>.\<close>

definition sample_alertmanager :: "string \<Rightarrow> (byte list, nat, string list) alertmanager" where
  "sample_alertmanager active =
     \<lparr>Base = sample_digest active, files = 0, Store = [], ConfigMetrics = sample_metrics,
      DefaultConfiguration = ''default-config'', orgID = 1, calls = []\<rparr>"

text \<open>
  The paths the sample persistence answers with, and a first apply of the sample
  configuration with the bytes \<^verbatim>\<open>user-config\<close> on a fresh instance (whose hash is that of
  the empty configuration), when the persistence reports changed templates.
\<close>

definition sample_paths :: "string list" where
  "sample_paths = [''/data/alerting/1/templates/__default__.tmpl'']"

definition sample_first_apply ::
  "(bool \<times> error option) \<times> PostableUserConfig \<times> (byte list, nat, string list) alertmanager" where
  "sample_first_apply =
     applyConfig (sample_externals (Inr (sample_paths, True)) None None) sample_config
       (Some ''user-config'') (sample_alertmanager '''')"

text \<open>A database record holding the sample configuration.\<close>

definition sample_record :: AlertConfiguration where
  "sample_record =
     \<lparr>dbCfg_AlertmanagerConfiguration = ''stored-config'',
      dbCfg_ConfigurationHash = ''5f2b9323c39ee3c861a7b382d205c3d3''\<rparr>"


section \<open>Properties\<close>

subsection \<open>The message of a validation error\<close>

lemma append_singleton_eq_Cons: "(@) [c] = (#) c"
  by (rule ext) simp

lemma fold_append_separator:
  "fold (\<lambda>e' errMsg. errMsg @ sep @ e') xs acc = acc @ concat (map (\<lambda>m. sep @ m) xs)"
  by (induction xs arbitrary: acc) simp_all

text \<open>
  C9. \<^verbatim>\<open>AlertValidationError.Error()\<close> returns the empty string when there are no errors,
  and otherwise the messages of all errors in order, the first as it is and every
  further one after a semicolon: the messages joined by \<^verbatim>\<open>;\<close>, with no separator at the
  end. For three errors \<^verbatim>\<open>x\<close>, \<^verbatim>\<open>y\<close>, \<^verbatim>\<open>z\<close> the message is \<^verbatim>\<open>x;y;z\<close>.
\<close>

theorem AlertValidationError_Error_joined:
  "AlertValidationError_Error e =
     (case Errors e of [] \<Rightarrow> '''' | x # xs \<Rightarrow> x @ concat (map (\<lambda>m. '';'' @ m) xs)) \<and>
   AlertValidationError_Error \<lparr>Alerts = as, Errors = []\<rparr> = '''' \<and>
   AlertValidationError_Error \<lparr>Alerts = as, Errors = [''x'', ''y'', ''z'']\<rparr> = ''x;y;z''"
proof -
  have "AlertValidationError_Error a =
     (case Errors a of [] \<Rightarrow> '''' | x # xs \<Rightarrow> x @ concat (map (\<lambda>m. '';'' @ m) xs))" for a
    using fold_append_separator [of "'';''"]
    by (cases "Errors a") (simp_all add: AlertValidationError_Error_def append_singleton_eq_Cons)
  then show ?thesis by simp
qed

subsection \<open>Matcher aggregation\<close>

lemma fold_aggregateRouteMatchers:
  assumes "\<And>r amu. r \<in> set rs \<Longrightarrow> aggregateRouteMatchers r amu =
      usage_add amu (sum_list (map count_Matchers (all_routes r)))
        (sum_list (map count_MatchRE (all_routes r)))
        (sum_list (map count_Match (all_routes r)))
        (sum_list (map count_ObjectMatchers (all_routes r)))"
  shows "fold aggregateRouteMatchers rs amu =
      usage_add amu (sum_list (map count_Matchers (concat (map all_routes rs))))
        (sum_list (map count_MatchRE (concat (map all_routes rs))))
        (sum_list (map count_Match (concat (map all_routes rs))))
        (sum_list (map count_ObjectMatchers (concat (map all_routes rs))))"
  using assms
proof (induction rs arbitrary: amu)
  case Nil
  then show ?case by (simp add: usage_add_def)
next
  case (Cons r rs)
  then show ?case by (simp add: usage_add_def add.assoc)
qed

lemma aggregateRouteMatchers_usage_add:
  "aggregateRouteMatchers r amu =
      usage_add amu (sum_list (map count_Matchers (all_routes r)))
        (sum_list (map count_MatchRE (all_routes r)))
        (sum_list (map count_Match (all_routes r)))
        (sum_list (map count_ObjectMatchers (all_routes r)))"
proof (induction r arbitrary: amu)
  case (RouteNode receiver matchers matchRE match objectMatchers routes)
  show ?case
    by (simp add: fold_aggregateRouteMatchers [OF RouteNode.IH] usage_add_def len_def
        len_map_def add.assoc)
qed

text \<open>
  C6. For every route tree and accumulator, \<^verbatim>\<open>aggregateRouteMatchers\<close> adds to each of the
  four counters the sum, over the root and all its descendants, of the number of
  matchers of that style. A root with two object matchers and one child with one
  \<^verbatim>\<open>match_re\<close> entry and one \<^verbatim>\<open>match\<close> entry, from the zero accumulator, gives
  \<^verbatim>\<open>ObjectMatchers\<close> = 2, \<^verbatim>\<open>Match\<close> = 1, \<^verbatim>\<open>MatchRE\<close> = 1 and \<^verbatim>\<open>Matchers\<close> = 0.
\<close>

theorem aggregateRouteMatchers_sums:
  "aggregateRouteMatchers r amu =
     \<lparr>Matchers = Matchers amu + of_nat (sum_list (map count_Matchers (all_routes r))),
      MatchRE = MatchRE amu + of_nat (sum_list (map count_MatchRE (all_routes r))),
      Match = Match amu + of_nat (sum_list (map count_Match (all_routes r))),
      ObjectMatchers =
        ObjectMatchers amu + of_nat (sum_list (map count_ObjectMatchers (all_routes r)))\<rparr> \<and>
   aggregateRouteMatchers
     (RouteNode rcv [] fmempty fmempty [m1, m2]
        [RouteNode rcv' [] (fmupd k1 v1 fmempty) (fmupd k2 v2 fmempty) [] []])
     \<lparr>Matchers = 0, MatchRE = 0, Match = 0, ObjectMatchers = 0\<rparr> =
     \<lparr>Matchers = 0, MatchRE = 1, Match = 1, ObjectMatchers = 2\<rparr>"
  by (simp add: aggregateRouteMatchers_usage_add usage_add_def fcard_finsert_if fcard_fempty)

subsection \<open>The hash as a metric value\<close>

lemma or_push_bit_add:
  fixes x y :: nat
  assumes "x < 2 ^ k"
  shows "x OR push_bit k y = x + y * 2 ^ k"
proof -
  have "x + push_bit k y = x OR push_bit k y"
  proof (rule disjunctive_add)
    fix n
    show "\<not> bit x n \<or> \<not> bit (push_bit k y) n"
    proof (cases "n < k")
      case True
      then show ?thesis by (simp add: bit_push_bit_iff)
    next
      case False
      have "take_bit k x = x" using assms by (simp add: take_bit_eq_mod)
      then have "bit x n = bit (take_bit k x) n" by simp
      also have "\<dots> = False" using False by (simp add: bit_take_bit_iff)
      finally show ?thesis by simp
    qed
  qed
  then show ?thesis by (simp add: push_bit_eq_mult)
qed

lemma nat_little_endian:
  fixes a b c d e f :: nat
  assumes "a < 256" "b < 256" "c < 256" "d < 256" "e < 256" "f < 256"
  shows "a OR push_bit 8 b OR push_bit 16 c OR push_bit 24 d OR push_bit 32 e OR push_bit 40 f =
    a + 256 * b + 65536 * c + 16777216 * d + 4294967296 * e + 1099511627776 * f"
proof -
  have 1: "a OR push_bit 8 b = a + b * 2 ^ 8"
    using assms by (intro or_push_bit_add) simp
  have 2: "(a + b * 2 ^ 8) OR push_bit 16 c = a + b * 2 ^ 8 + c * 2 ^ 16"
    using assms by (intro or_push_bit_add) simp
  have 3: "(a + b * 2 ^ 8 + c * 2 ^ 16) OR push_bit 24 d = a + b * 2 ^ 8 + c * 2 ^ 16 + d * 2 ^ 24"
    using assms by (intro or_push_bit_add) simp
  have 4: "(a + b * 2 ^ 8 + c * 2 ^ 16 + d * 2 ^ 24) OR push_bit 32 e =
      a + b * 2 ^ 8 + c * 2 ^ 16 + d * 2 ^ 24 + e * 2 ^ 32"
    using assms by (intro or_push_bit_add) simp
  have 5: "(a + b * 2 ^ 8 + c * 2 ^ 16 + d * 2 ^ 24 + e * 2 ^ 32) OR push_bit 40 f =
      a + b * 2 ^ 8 + c * 2 ^ 16 + d * 2 ^ 24 + e * 2 ^ 32 + f * 2 ^ 40"
    using assms by (intro or_push_bit_add) simp
  have "a OR push_bit 8 b OR push_bit 16 c OR push_bit 24 d OR push_bit 32 e OR push_bit 40 f =
     ((((a OR push_bit 8 b) OR push_bit 16 c) OR push_bit 24 d) OR push_bit 32 e) OR push_bit 40 f"
    by (simp only: or.assoc)
  also have "\<dots> = a + b * 2 ^ 8 + c * 2 ^ 16 + d * 2 ^ 24 + e * 2 ^ 32 + f * 2 ^ 40"
    by (simp only: 1 2 3 4 5)
  finally show ?thesis by simp
qed

lemma take_bit_64_push_bit:
  "n < 256 \<Longrightarrow> k \<le> 40 \<Longrightarrow> take_bit 64 (push_bit k (n::nat)) = push_bit k n"
proof -
  assume "n < 256" "k \<le> 40"
  have "n * 2 ^ k < 2 ^ 8 * 2 ^ k" using \<open>n < 256\<close> by simp
  also have "\<dots> = (2::nat) ^ (8 + k)" by (simp add: power_add)
  also have "\<dots> \<le> 2 ^ 64" using \<open>k \<le> 40\<close> by (intro power_increasing) simp_all
  finally show ?thesis by (simp add: take_bit_eq_mod push_bit_eq_mult)
qed

lemma unat_byte_less: "unat (a :: byte) < 256"
  using unsigned_less [of a, where 'a = nat] by simp

lemma unat_LittleEndian_Uint64:
  fixes a b c d e f :: byte
  shows "unat (LittleEndian_Uint64 [a, b, c, d, e, f, 0, 0]) =
    unat a + 256 * unat b + 65536 * unat c + 16777216 * unat d + 4294967296 * unat e +
    1099511627776 * unat f"
proof -
  have t: "take_bit 64 (unat x) = unat x" for x :: byte
    using take_bit_64_push_bit [of "unat x" 0] unat_byte_less [of x] by simp
  show ?thesis
    by (simp add: LittleEndian_Uint64_def unsigned_or_eq unsigned_push_bit_eq unsigned_ucast_eq
        t take_bit_64_push_bit unat_byte_less nat_little_endian)
qed

lemma take_6: "6 \<le> length xs \<Longrightarrow> take 6 xs = [xs ! 0, xs ! 1, xs ! 2, xs ! 3, xs ! 4, xs ! 5]"
  by (auto simp add: eval_nat_numeral Suc_le_length_iff)

lemma replicate_2: "replicate 2 x = [x, x]"
  by (simp add: eval_nat_numeral)

lemma sum_6: "(\<Sum>i<6. g i) = g 0 + g 1 + g 2 + g 3 + g 4 + (g (5::nat) :: nat)"
  by (simp add: eval_nat_numeral lessThan_Suc)

lemma six_bytes_less: "(\<Sum>i<6. unat ((data :: byte list) ! i) * 256 ^ i) < 2 ^ 48"
  using unat_byte_less [of "data ! 0"] unat_byte_less [of "data ! 1"] unat_byte_less [of "data ! 2"]
    unat_byte_less [of "data ! 3"] unat_byte_less [of "data ! 4"] unat_byte_less [of "data ! 5"]
  by (simp add: sum_6)

text \<open>
  C8. For every hash of 16 bytes, \<^verbatim>\<open>hashAsMetricValue\<close> returns the float64 of the
  unsigned little-endian integer formed from the first six bytes (the other ten bytes
  do not enter the result). That integer is below \<open>2 ^ 48\<close>, so the conversion is exact:
  the float denotes the integer itself.
\<close>

theorem hashAsMetricValue_low_48_bits:
  assumes "length data = 16"
  shows "hashAsMetricValue data = float64_of_uint64 (LittleEndian_Uint64 (take 6 data @ [0, 0])) \<and>
    float64_of_uint64 (LittleEndian_Uint64 (take 6 data @ [0, 0])) =
      unat (LittleEndian_Uint64 (take 6 data @ [0, 0])) \<and>
    unat (LittleEndian_Uint64 (take 6 data @ [0, 0])) = (\<Sum>i<6. unat (data ! i) * 256 ^ i) \<and>
    hashAsMetricValue data < 2 ^ 48"
proof -
  have c: "copy (replicate 8 0) (take 6 data) = take 6 data @ [0, 0 :: byte]"
    using assms by (simp add: copy_def replicate_2)
  have t: "take 6 data @ [0, 0] = [data ! 0, data ! 1, data ! 2, data ! 3, data ! 4, data ! 5, 0, 0]"
    using assms by (simp add: take_6)
  have v: "unat (LittleEndian_Uint64 (take 6 data @ [0, 0])) = (\<Sum>i<6. unat (data ! i) * 256 ^ i)"
    unfolding t by (simp add: unat_LittleEndian_Uint64 sum_6)
  have f: "hashAsMetricValue data = float64_of_uint64 (LittleEndian_Uint64 (take 6 data @ [0, 0]))"
    by (simp add: hashAsMetricValue_def c)
  have "(2::nat) ^ 48 \<le> 2 ^ 53" by simp
  with six_bytes_less [of data] have "(\<Sum>i<6. unat (data ! i) * 256 ^ i) < 2 ^ 53"
    by (rule less_le_trans)
  then have x: "float64_of_uint64 (LittleEndian_Uint64 (take 6 data @ [0, 0])) =
      unat (LittleEndian_Uint64 (take 6 data @ [0, 0]))"
    unfolding float64_of_uint64_def Let_def v by (simp only: if_True)
  from f x v six_bytes_less [of data] show ?thesis by simp
qed

theorem hashAsMetricValue_low_48_bits_witness:
  "length [1, 2, 3, 4, 5, 6, 7, 8, 9, 10, 11, 12, 13, 14, 15, 16 :: byte] = 16 \<and>
   hashAsMetricValue [1, 2, 3, 4, 5, 6, 7, 8, 9, 10, 11, 12, 13, 14, 15, 16] = 6618611909121 \<and>
   hashAsMetricValue [1, 2, 3, 4, 5, 6, 7, 8, 9, 10, 11, 12, 13, 14, 15, 16] < 2 ^ 48"
  using hashAsMetricValue_low_48_bits
    [of "[1, 2, 3, 4, 5, 6, 7, 8, 9, 10, 11, 12, 13, 14, 15, 16]"]
  by (simp add: sum_6)

subsection \<open>Applying a configuration: the five outcomes\<close>

lemma applyConfig_serialize_error:
  assumes "serialized ext cfg rawConfig = Inl e"
  shows "applyConfig ext cfg rawConfig am =
    ((False, Some e), cfg, am\<lparr>calls := calls am @ marshal_calls cfg rawConfig\<rparr>)"
  using assms
  by (cases rawConfig) (simp_all add: applyConfig_def serialized_def record_call_def marshal_calls_def)

lemma applyConfig_persist_error:
  assumes "serialized ext cfg rawConfig = Inr raw" and "persisted ext cfg am = (Inl e, fs)"
  shows "applyConfig ext cfg rawConfig am =
    ((False, Some e), cfg_with_default_template ext cfg,
     am\<lparr>files := fs,
        calls := calls am @ marshal_calls cfg rawConfig @
          [Call_md5_Sum raw, Call_PersistTemplates (cfg_with_default_template ext cfg)]\<rparr>)"
  using assms
  by (cases rawConfig)
    (simp_all add: applyConfig_def serialized_def record_call_def marshal_calls_def persisted_def
      cfg_with_default_template_def Let_def)

lemma applyConfig_unchanged:
  assumes "serialized ext cfg rawConfig = Inr raw" and "persisted ext cfg am = (Inr (paths, False), fs)"
    and "Base_ConfigHash ext (Base am) = md5_Sum ext raw"
  shows "applyConfig ext cfg rawConfig am =
    ((False, None),
     (cfg_with_default_template ext cfg)\<lparr>AlertmanagerConfig :=
        (AlertmanagerConfig cfg)\<lparr>Templates := paths\<rparr>\<rparr>,
     am\<lparr>files := fs,
        calls := calls am @ marshal_calls cfg rawConfig @
          [Call_md5_Sum raw, Call_PersistTemplates (cfg_with_default_template ext cfg)]\<rparr>)"
  using assms
  by (cases rawConfig)
    (simp_all add: applyConfig_def serialized_def record_call_def marshal_calls_def persisted_def
      cfg_with_default_template_def Let_def)

lemma applyConfig_apply_error:
  assumes "serialized ext cfg rawConfig = Inr raw" and "persisted ext cfg am = (Inr (paths, tc), fs)"
    and "Base_ConfigHash ext (Base am) \<noteq> md5_Sum ext raw \<or> tc"
    and "Base_ApplyConfig ext (alerting_configuration ext cfg raw paths) fs (Base am) = (Some e, b)"
  shows "applyConfig ext cfg rawConfig am =
    ((False, Some e),
     (cfg_with_default_template ext cfg)\<lparr>AlertmanagerConfig :=
        (AlertmanagerConfig cfg)\<lparr>Templates := paths\<rparr>\<rparr>,
     am\<lparr>Base := b, files := fs,
        calls := calls am @ marshal_calls cfg rawConfig @
          [Call_md5_Sum raw, Call_PersistTemplates (cfg_with_default_template ext cfg),
           Call_Base_ApplyConfig (alerting_configuration ext cfg raw paths)]\<rparr>)"
  using assms
  by (cases rawConfig)
    (auto simp add: applyConfig_def serialized_def record_call_def marshal_calls_def persisted_def
      cfg_with_default_template_def Let_def alerting_configuration_def)

lemma applyConfig_applied:
  assumes "serialized ext cfg rawConfig = Inr raw" and "persisted ext cfg am = (Inr (paths, tc), fs)"
    and "Base_ConfigHash ext (Base am) \<noteq> md5_Sum ext raw \<or> tc"
    and "Base_ApplyConfig ext (alerting_configuration ext cfg raw paths) fs (Base am) = (None, b)"
  shows "applyConfig ext cfg rawConfig am =
    ((True, None),
     (cfg_with_default_template ext cfg)\<lparr>AlertmanagerConfig :=
        (AlertmanagerConfig cfg)\<lparr>Templates := paths\<rparr>\<rparr>,
     updateConfigMetrics ext ((cfg_with_default_template ext cfg)\<lparr>AlertmanagerConfig :=
        (AlertmanagerConfig cfg)\<lparr>Templates := paths\<rparr>\<rparr>)
     (am\<lparr>files := fs, Base := b,
        calls := calls am @ marshal_calls cfg rawConfig @
          [Call_md5_Sum raw, Call_PersistTemplates (cfg_with_default_template ext cfg),
           Call_Base_ApplyConfig (alerting_configuration ext cfg raw paths)]\<rparr>))"
  using assms
  by (cases rawConfig)
    (auto simp add: applyConfig_def serialized_def record_call_def marshal_calls_def persisted_def
      cfg_with_default_template_def Let_def alerting_configuration_def)

lemma applyConfig_cases [case_names serialize_error persist_error unchanged apply_error applied]:
  obtains e where "serialized ext cfg rawConfig = Inl e"
  | raw e fs where "serialized ext cfg rawConfig = Inr raw" and "persisted ext cfg am = (Inl e, fs)"
  | raw paths fs where "serialized ext cfg rawConfig = Inr raw"
      and "persisted ext cfg am = (Inr (paths, False), fs)"
      and "Base_ConfigHash ext (Base am) = md5_Sum ext raw"
  | raw paths tc fs e b where "serialized ext cfg rawConfig = Inr raw"
      and "persisted ext cfg am = (Inr (paths, tc), fs)"
      and "Base_ConfigHash ext (Base am) \<noteq> md5_Sum ext raw \<or> tc"
      and "Base_ApplyConfig ext (alerting_configuration ext cfg raw paths) fs (Base am) = (Some e, b)"
  | raw paths tc fs b where "serialized ext cfg rawConfig = Inr raw"
      and "persisted ext cfg am = (Inr (paths, tc), fs)"
      and "Base_ConfigHash ext (Base am) \<noteq> md5_Sum ext raw \<or> tc"
      and "Base_ApplyConfig ext (alerting_configuration ext cfg raw paths) fs (Base am) = (None, b)"
proof (cases "serialized ext cfg rawConfig")
  case (Inl e)
  then show ?thesis by (rule that(1))
next
  case (Inr raw)
  obtain p fs where p: "persisted ext cfg am = (p, fs)" by (cases "persisted ext cfg am")
  show ?thesis
  proof (cases p)
    case (Inl e)
    with Inr p show ?thesis by (intro that(2)) simp_all
  next
    case r: (Inr pt)
    obtain paths tc where pt: "pt = (paths, tc)" by (cases pt)
    obtain eo b where a:
      "Base_ApplyConfig ext (alerting_configuration ext cfg raw paths) fs (Base am) = (eo, b)"
      by (cases "Base_ApplyConfig ext (alerting_configuration ext cfg raw paths) fs (Base am)")
    show ?thesis
    proof (cases "Base_ConfigHash ext (Base am) = md5_Sum ext raw \<and> \<not> tc")
      case True
      with Inr p r pt show ?thesis by (intro that(3)) simp_all
    next
      case False
      show ?thesis
      proof (cases eo)
        case None
        with Inr p r pt a False show ?thesis by (intro that(5) [of raw paths tc fs b]) auto
      next
        case (Some e)
        with Inr p r pt a False show ?thesis by (intro that(4) [of raw paths tc fs e b]) auto
      qed
    qed
  qed
qed

lemma calls_since_append [simp]: "calls_since am (am'\<lparr>calls := calls am @ new\<rparr>) = new"
  by (simp add: calls_since_def)

lemma calls_since_updateConfigMetrics [simp]:
  "calls_since am (updateConfigMetrics ext cfg (am'\<lparr>calls := calls am @ new\<rparr>)) =
     new @ [Call_updateConfigMetrics]"
  by (simp add: calls_since_def updateConfigMetrics_def record_call_def Let_def)

lemma calls_since_self [simp]: "calls_since am am = []"
  by (simp add: calls_since_def)


lemma sample_first_apply_eq:
  "sample_first_apply =
    ((True, None),
     \<lparr>TemplateFiles = Some (fmupd ''__default__.tmpl'' ''default template'' fmempty),
      AlertmanagerConfig =
        \<lparr>Route = sample_route, InhibitRules = [], Templates = sample_paths,
         Receivers = [''grafana-default-email'', ''pager'']\<rparr>\<rparr>,
     \<lparr>Base = sample_digest ''user-config'', files = 1, Store = [],
      ConfigMetrics =
        \<lparr>gauge_Matchers = 0, gauge_MatchRE = 1, gauge_Match = 1, gauge_ObjectMatchers = 2,
         gauge_ConfigHash = fmupd 1 (hashAsMetricValue (sample_digest ''user-config'')) fmempty\<rparr>,
      DefaultConfiguration = ''default-config'', orgID = 1,
      calls =
        [Call_md5_Sum ''user-config'',
         Call_PersistTemplates
           \<lparr>TemplateFiles = Some (fmupd ''__default__.tmpl'' ''default template'' fmempty),
            AlertmanagerConfig =
              \<lparr>Route = sample_route, InhibitRules = [], Templates = [''old.tmpl''],
               Receivers = [''grafana-default-email'', ''pager'']\<rparr>\<rparr>,
         Call_Base_ApplyConfig
           \<lparr>rawAlertmanagerConfig = ''user-config'',
            alertmanagerConfig =
              \<lparr>Route = sample_route, InhibitRules = [], Templates = sample_paths,
               Receivers = [''grafana-default-email'', ''pager'']\<rparr>\<rparr>,
         Call_updateConfigMetrics]\<rparr>)"
  by (simp add: sample_first_apply_def applyConfig_def sample_externals_def sample_alertmanager_def
      sample_config_def sample_metrics_def record_call_def updateConfigMetrics_def Let_def
      aggregateInhibitMatchers_def sample_route_def len_def len_map_def fcard_finsert_if fcard_fempty
      sample_digest_def)

subsection \<open>An unchanged configuration is not applied again\<close>

text \<open>
  C2. For every configuration and bytes that are given (not \<^verbatim>\<open>nil\<close>) and whose MD5 digest
  is the active configuration hash, when the template persistence reports the template
  set unchanged, \<^verbatim>\<open>applyConfig\<close> returns \<^verbatim>\<open>(false, nil)\<close>; the only calls it makes are the
  hash computation and the template persistence, so \<^verbatim>\<open>Base.ApplyConfig\<close> is not invoked
  and the metrics are not updated, and the embedded Alertmanager, the metrics and the
  store are as before. Applying the same bytes a second time is such a call.
\<close>

theorem applyConfig_unchanged_is_noop:
  assumes "md5_Sum ext raw = Base_ConfigHash ext (Base am)"
    and "fst (persisted ext cfg am) = Inr (paths, False)"
    and "applyConfig ext cfg (Some raw) am = (res, cfg', am')"
  shows "res = (False, None) \<and> Base am' = Base am \<and> ConfigMetrics am' = ConfigMetrics am \<and>
    Store am' = Store am \<and>
    calls am' = calls am @ [Call_md5_Sum raw, Call_PersistTemplates (cfg_with_default_template ext cfg)] \<and>
    \<not> list_ex is_Base_ApplyConfig (calls_since am am') \<and>
    \<not> list_ex is_updateConfigMetrics (calls_since am am')"
proof -
  have s: "serialized ext cfg (Some raw) = Inr raw" by (simp add: serialized_def)
  have p: "persisted ext cfg am = (Inr (paths, False), snd (persisted ext cfg am))"
    using assms(2) by (cases "persisted ext cfg am") simp
  have h: "Base_ConfigHash ext (Base am) = md5_Sum ext raw" using assms(1) by simp
  show ?thesis
    using assms(3) unfolding applyConfig_unchanged [OF s p h]
    by (auto simp add: marshal_calls_def)
qed

text \<open>
  The sample configuration applied twice with the same bytes: the first apply rebuilds
  the pipeline, the second one finds the hash it left and unchanged templates, and
  makes two calls only.
\<close>

theorem applyConfig_unchanged_is_noop_witness:
  "fst sample_first_apply = (True, None) \<and>
   md5_Sum (sample_externals (Inr (sample_paths, False)) None None) ''user-config'' =
     Base_ConfigHash (sample_externals (Inr (sample_paths, False)) None None)
       (Base (snd (snd sample_first_apply))) \<and>
   fst (persisted (sample_externals (Inr (sample_paths, False)) None None)
          (fst (snd sample_first_apply)) (snd (snd sample_first_apply))) =
     Inr (sample_paths, False) \<and>
   fst (applyConfig (sample_externals (Inr (sample_paths, False)) None None)
          (fst (snd sample_first_apply)) (Some ''user-config'') (snd (snd sample_first_apply))) =
     (False, None) \<and>
   Base (snd (snd (applyConfig (sample_externals (Inr (sample_paths, False)) None None)
          (fst (snd sample_first_apply)) (Some ''user-config'') (snd (snd sample_first_apply))))) =
     Base (snd (snd sample_first_apply)) \<and>
   ConfigMetrics (snd (snd (applyConfig (sample_externals (Inr (sample_paths, False)) None None)
          (fst (snd sample_first_apply)) (Some ''user-config'') (snd (snd sample_first_apply))))) =
     ConfigMetrics (snd (snd sample_first_apply)) \<and>
   calls_since (snd (snd sample_first_apply))
     (snd (snd (applyConfig (sample_externals (Inr (sample_paths, False)) None None)
          (fst (snd sample_first_apply)) (Some ''user-config'') (snd (snd sample_first_apply))))) =
     [Call_md5_Sum ''user-config'',
      Call_PersistTemplates
        (cfg_with_default_template (sample_externals (Inr (sample_paths, False)) None None)
           (fst (snd sample_first_apply)))]"
  using applyConfig_unchanged_is_noop
    [of "sample_externals (Inr (sample_paths, False)) None None" "''user-config''"
      "snd (snd sample_first_apply)" "fst (snd sample_first_apply)" sample_paths
      "fst (applyConfig (sample_externals (Inr (sample_paths, False)) None None)
          (fst (snd sample_first_apply)) (Some ''user-config'') (snd (snd sample_first_apply)))"
      "fst (snd (applyConfig (sample_externals (Inr (sample_paths, False)) None None)
          (fst (snd sample_first_apply)) (Some ''user-config'') (snd (snd sample_first_apply))))"
      "snd (snd (applyConfig (sample_externals (Inr (sample_paths, False)) None None)
          (fst (snd sample_first_apply)) (Some ''user-config'') (snd (snd sample_first_apply))))"]
  by (simp add: sample_first_apply_eq sample_externals_def persisted_def calls_since_def)

subsection \<open>A failed apply\<close>




subsection \<open>Marking the applied configuration\<close>

lemma calls_sinceI: "calls am' = calls am @ new \<Longrightarrow> calls_since am am' = new"
  by (simp add: calls_since_def)

lemma applyConfig_frame:
  assumes r: "applyConfig ext cfg rawConfig am = ((changed, result), cfg', am')"
  shows "orgID am' = orgID am \<and> Store am' = Store am \<and>
    DefaultConfiguration am' = DefaultConfiguration am \<and>
    calls am' = calls am @ calls_since am am' \<and>
    \<not> list_ex is_MarkConfigurationAsApplied (calls_since am am') \<and>
    (if changed then result = None \<and> list_ex is_Base_ApplyConfig (calls_since am am')
     else True)"
proof (cases rule: applyConfig_cases [where ext = ext and cfg = cfg and rawConfig = rawConfig and am = am])
  case (serialize_error e)
  from r show ?thesis unfolding applyConfig_serialize_error [OF serialize_error]
    by (cases rawConfig) (auto simp add: marshal_calls_def)
next
  case (persist_error raw e fs)
  from r show ?thesis unfolding applyConfig_persist_error [OF persist_error]
    by (cases rawConfig) (auto simp add: marshal_calls_def)
next
  case (unchanged raw paths fs)
  from r show ?thesis unfolding applyConfig_unchanged [OF unchanged]
    by (cases rawConfig) (auto simp add: marshal_calls_def)
next
  case (apply_error raw paths tc fs e b)
  from r show ?thesis unfolding applyConfig_apply_error [OF apply_error]
    by (cases rawConfig) (auto simp add: marshal_calls_def)
next
  case (applied raw paths tc fs b)
  from r show ?thesis unfolding applyConfig_applied [OF applied]
    by (cases rawConfig)
      (auto simp add: marshal_calls_def updateConfigMetrics_def record_call_def Let_def
        calls_since_def)
qed

text \<open>
  C4, as stated, fails: a database record that parses and whose serialized configuration
  has the active hash, with unchanged templates, is applied successfully
  (\<^verbatim>\<open>ApplyConfig\<close> returns \<^verbatim>\<open>nil\<close>) and \<^verbatim>\<open>MarkConfigurationAsApplied\<close> is not invoked:
  \<^verbatim>\<open>applyAndMarkConfig\<close> marks only under \<^verbatim>\<open>if configChanged\<close>.
\<close>

theorem ApplyConfig_always_marks_counterexample:
  "Load (sample_externals (Inr (sample_paths, False)) None None)
     (dbCfg_AlertmanagerConfiguration sample_record) = Inr sample_config \<and>
   fst (ApplyConfig (sample_externals (Inr (sample_paths, False)) None None) sample_record
     (sample_alertmanager ''alerting-config'')) = None \<and>
   \<not> list_ex is_MarkConfigurationAsApplied
     (calls (snd (ApplyConfig (sample_externals (Inr (sample_paths, False)) None None) sample_record
       (sample_alertmanager ''alerting-config''))))"
  by (simp add: ApplyConfig_def applyAndMarkConfig_def applyConfig_def sample_externals_def
      sample_alertmanager_def sample_record_def record_call_def Let_def sample_digest_def)

text \<open>
  C4, amended. For every database record that parses, a successful \<^verbatim>\<open>ApplyConfig\<close> call in
  which \<^verbatim>\<open>applyConfig\<close> reports the configuration changed invokes
  \<^verbatim>\<open>Store.MarkConfigurationAsApplied\<close> with the hash of the record and the organisation
  id of the instance, as its last call, after \<^verbatim>\<open>Base.ApplyConfig\<close>, and the mark returned
  \<^verbatim>\<open>nil\<close>. A successful call in which \<^verbatim>\<open>applyConfig\<close> reports the configuration unchanged
  does not invoke it.
\<close>

theorem ApplyConfig_marks_when_changed:
  assumes l: "Load ext (dbCfg_AlertmanagerConfiguration dbCfg) = Inr cfg"
    and a: "applyConfig ext cfg None
        (record_call (Call_Load (dbCfg_AlertmanagerConfiguration dbCfg)) am) =
        ((changed, result), cfg', am1)"
    and s: "ApplyConfig ext dbCfg am = (None, am')"
  shows "result = None \<and>
    (if changed
     then calls am' = calls am1 @
            [Call_MarkConfigurationAsApplied
               \<lparr>mark_OrgID = orgID am, mark_ConfigurationHash = dbCfg_ConfigurationHash dbCfg\<rparr>] \<and>
          Store_MarkConfigurationAsApplied ext
            \<lparr>mark_OrgID = orgID am, mark_ConfigurationHash = dbCfg_ConfigurationHash dbCfg\<rparr>
            (Store am) = (None, Store am') \<and>
          list_ex is_Base_ApplyConfig (calls_since am am1)
     else am' = am1 \<and> \<not> list_ex is_MarkConfigurationAsApplied (calls_since am am'))"
proof -
  let ?am0 = "record_call (Call_Load (dbCfg_AlertmanagerConfiguration dbCfg)) am"
  have f: "orgID am1 = orgID am" "Store am1 = Store am"
    "calls am1 = calls ?am0 @ calls_since ?am0 am1"
    "\<not> list_ex is_MarkConfigurationAsApplied (calls_since ?am0 am1)"
    "changed \<Longrightarrow> list_ex is_Base_ApplyConfig (calls_since ?am0 am1)"
    using applyConfig_frame [OF a] by (auto simp add: record_call_def split: if_splits)
  have c: "calls_since am am1 = Call_Load (dbCfg_AlertmanagerConfiguration dbCfg) # calls_since ?am0 am1"
  proof (rule calls_sinceI)
    show "calls am1 = calls am @
        Call_Load (dbCfg_AlertmanagerConfiguration dbCfg) # calls_since ?am0 am1"
      using f(3) by (simp add: record_call_def)
  qed
  show ?thesis
  proof (cases result)
    case (Some e)
    with s l a show ?thesis by (simp add: ApplyConfig_def applyAndMarkConfig_def Let_def)
  next
    case None
    show ?thesis
    proof (cases changed)
      case True
      with s l a None f c show ?thesis
        by (auto simp add: ApplyConfig_def applyAndMarkConfig_def Let_def record_call_def
            split: prod.splits option.splits)
    next
      case False
      with s l a None f c show ?thesis
        by (auto simp add: ApplyConfig_def applyAndMarkConfig_def Let_def)
    qed
  qed
qed

theorem ApplyConfig_marks_when_changed_witness:
  "Load (sample_externals (Inr (sample_paths, True)) None None)
     (dbCfg_AlertmanagerConfiguration sample_record) = Inr sample_config \<and>
   fst (ApplyConfig (sample_externals (Inr (sample_paths, True)) None None) sample_record
     (sample_alertmanager '''')) = None \<and>
   fst (fst (applyConfig (sample_externals (Inr (sample_paths, True)) None None) sample_config None
     (record_call (Call_Load ''stored-config'') (sample_alertmanager '''')))) = True \<and>
   last (calls (snd (ApplyConfig (sample_externals (Inr (sample_paths, True)) None None) sample_record
     (sample_alertmanager '''')))) =
     Call_MarkConfigurationAsApplied
       \<lparr>mark_OrgID = 1, mark_ConfigurationHash = ''5f2b9323c39ee3c861a7b382d205c3d3''\<rparr>"
  using ApplyConfig_marks_when_changed
    [of "sample_externals (Inr (sample_paths, True)) None None" sample_record sample_config
      "sample_alertmanager ''''" True None
      "fst (snd (applyConfig (sample_externals (Inr (sample_paths, True)) None None) sample_config None
         (record_call (Call_Load ''stored-config'') (sample_alertmanager ''''))))"
      "snd (snd (applyConfig (sample_externals (Inr (sample_paths, True)) None None) sample_config None
         (record_call (Call_Load ''stored-config'') (sample_alertmanager ''''))))"
      "snd (ApplyConfig (sample_externals (Inr (sample_paths, True)) None None) sample_record
         (sample_alertmanager ''''))"]
  by (simp add: ApplyConfig_def applyAndMarkConfig_def applyConfig_def sample_externals_def
      sample_alertmanager_def sample_record_def record_call_def Let_def sample_digest_def
      updateConfigMetrics_def)

subsection \<open>The error of the default configuration\<close>

lemma SaveAndApplyDefaultConfig_result:
  "fst (SaveAndApplyDefaultConfig ext am) =
     (case Load ext (DefaultConfiguration am) of Inl err \<Rightarrow> Some err | Inr cfg \<Rightarrow> None)"
  by (simp add: SaveAndApplyDefaultConfig_def Let_def split: sum.splits prod.splits option.splits)

text \<open>
  C1. An error of \<^verbatim>\<open>Store.SaveAlertmanagerConfigurationWithCallback\<close> inside
  \<^verbatim>\<open>SaveAndApplyDefaultConfig\<close> is to be returned to the caller. The source does not do
  so: it assigns \<^verbatim>\<open>outerErr = nil\<close> on that branch, and the error is lost (by the lemma
  before this text the function returns an error only when the default configuration
  does not parse). Evaluated on the sample instance: the store returns the error of the
  failed apply, or the error of the failed database write, and
  \<^verbatim>\<open>SaveAndApplyDefaultConfig\<close> returns \<^verbatim>\<open>nil\<close> both times, while \<^verbatim>\<open>SaveAndApplyConfig\<close>
  returns the error of the failed apply.
\<close>

theorem SaveAndApplyDefaultConfig_discards_error:
  "fst (SaveAlertmanagerConfigurationWithCallback
          (sample_externals (Inr (sample_paths, True)) (Some ''failed to build integration'') None)
          \<lparr>AlertmanagerConfiguration = ''default-config'', Default = True,
             ConfigurationVersion = ''v1'', OrgID = 1, LastApplied = 1700000000\<rparr>
          (applyConfig_callback
             (sample_externals (Inr (sample_paths, True)) (Some ''failed to build integration'') None)
             ''default-config'')
          (sample_config, record_call (Call_Load ''default-config'') (sample_alertmanager ''''))) =
     Some ''failed to build integration'' \<and>
   fst (SaveAndApplyDefaultConfig
          (sample_externals (Inr (sample_paths, True)) (Some ''failed to build integration'') None)
          (sample_alertmanager '''')) = None \<and>
   fst (SaveAlertmanagerConfigurationWithCallback
          (sample_externals (Inr (sample_paths, True)) None (Some ''database is locked''))
          \<lparr>AlertmanagerConfiguration = ''default-config'', Default = True,
             ConfigurationVersion = ''v1'', OrgID = 1, LastApplied = 1700000000\<rparr>
          (applyConfig_callback
             (sample_externals (Inr (sample_paths, True)) None (Some ''database is locked''))
             ''default-config'')
          (sample_config, record_call (Call_Load ''default-config'') (sample_alertmanager ''''))) =
     Some ''database is locked'' \<and>
   fst (SaveAndApplyDefaultConfig
          (sample_externals (Inr (sample_paths, True)) None (Some ''database is locked''))
          (sample_alertmanager '''')) = None \<and>
   fst (SaveAndApplyConfig
          (sample_externals (Inr (sample_paths, True)) (Some ''failed to build integration'') None)
          sample_config (sample_alertmanager '''')) = Some ''failed to build integration''"
  by (simp add: SaveAndApplyDefaultConfig_def SaveAndApplyConfig_def
      SaveAlertmanagerConfigurationWithCallback_def applyConfig_callback_def applyConfig_def
      sample_externals_def sample_alertmanager_def record_call_def Let_def sample_digest_def)

subsection \<open>The default template and the mutation of the configuration\<close>

text \<open>
  C5. Every configuration that \<^verbatim>\<open>applyConfig\<close> hands to the template persistence holds the
  default template under the key \<^verbatim>\<open>__default__.tmpl\<close>, whatever its template files were,
  a \<^verbatim>\<open>nil\<close> map included. For every call that gets past the serialization (every call
  with given bytes does), the template persistence is invoked on the configuration with
  the default template stored in it, and the configuration object afterwards maps the
  key to the default template string and keeps the other template files.
\<close>

theorem applyConfig_injects_default_template:
  assumes r: "applyConfig ext cfg rawConfig am = (res, cfg', am')"
  shows "list_all (persists_default_template ext) (calls_since am am') \<and>
    has_default_template ext (cfg_with_default_template ext cfg) \<and>
    (\<forall>raw. serialized ext cfg rawConfig = Inr raw \<longrightarrow>
       TemplateFiles cfg' =
         Some (fmupd ''__default__.tmpl'' (DefaultTemplateString ext)
                (case TemplateFiles cfg of None \<Rightarrow> fmempty | Some m \<Rightarrow> m)) \<and>
       has_default_template ext cfg' \<and>
       Call_PersistTemplates (cfg_with_default_template ext cfg) \<in> set (calls_since am am'))"
proof -
  have h: "has_default_template ext (cfg_with_default_template ext cfg)"
    by (simp add: has_default_template_def cfg_with_default_template_def)
  show ?thesis
  proof (cases rule: applyConfig_cases [where ext = ext and cfg = cfg and rawConfig = rawConfig and am = am])
    case (serialize_error e)
    from r h show ?thesis unfolding applyConfig_serialize_error [OF serialize_error]
      using serialize_error by (cases rawConfig) (auto simp add: marshal_calls_def)
  next
    case (persist_error raw' e fs)
    from r h show ?thesis unfolding applyConfig_persist_error [OF persist_error]
      by (cases rawConfig)
        (auto simp add: marshal_calls_def has_default_template_def cfg_with_default_template_def)
  next
    case (unchanged raw' paths fs)
    from r h show ?thesis unfolding applyConfig_unchanged [OF unchanged]
      by (cases rawConfig)
        (auto simp add: marshal_calls_def has_default_template_def cfg_with_default_template_def)
  next
    case (apply_error raw' paths tc fs e b)
    from r h show ?thesis unfolding applyConfig_apply_error [OF apply_error]
      by (cases rawConfig)
        (auto simp add: marshal_calls_def has_default_template_def cfg_with_default_template_def)
  next
    case (applied raw' paths tc fs b)
    from r h show ?thesis unfolding applyConfig_applied [OF applied]
      by (cases rawConfig)
        (auto simp add: marshal_calls_def has_default_template_def cfg_with_default_template_def)
  qed
qed

text \<open>The sample configuration, whose template files are \<^verbatim>\<open>nil\<close>, applied from a record.\<close>

theorem applyConfig_injects_default_template_witness:
  "TemplateFiles sample_config = None \<and>
   serialized (sample_externals (Inr (sample_paths, True)) None None) sample_config None =
     Inr ''alerting-config'' \<and>
   TemplateFiles (fst (snd (applyConfig (sample_externals (Inr (sample_paths, True)) None None)
     sample_config None (sample_alertmanager '''')))) =
     Some (fmupd ''__default__.tmpl'' ''default template'' fmempty) \<and>
   has_default_template (sample_externals (Inr (sample_paths, True)) None None)
     (fst (snd (applyConfig (sample_externals (Inr (sample_paths, True)) None None)
        sample_config None (sample_alertmanager '''')))) \<and>
   list_all (persists_default_template (sample_externals (Inr (sample_paths, True)) None None))
     (calls (snd (snd (applyConfig (sample_externals (Inr (sample_paths, True)) None None)
        sample_config None (sample_alertmanager '''')))))"
  using applyConfig_injects_default_template
    [of "sample_externals (Inr (sample_paths, True)) None None" sample_config None
      "sample_alertmanager ''''"
      "fst (applyConfig (sample_externals (Inr (sample_paths, True)) None None)
         sample_config None (sample_alertmanager ''''))"
      "fst (snd (applyConfig (sample_externals (Inr (sample_paths, True)) None None)
         sample_config None (sample_alertmanager '''')))"
      "snd (snd (applyConfig (sample_externals (Inr (sample_paths, True)) None None)
         sample_config None (sample_alertmanager '''')))"]
  by (simp add: applyConfig_def sample_externals_def sample_alertmanager_def sample_config_def
      serialized_def record_call_def Let_def sample_digest_def updateConfigMetrics_def
      has_default_template_def calls_since_def)

text \<open>
  C10, as stated, fails for \<^verbatim>\<open>cfg.AlertmanagerConfig.Templates\<close>: an invocation reaches the
  template persistence, the persistence returns an error, and the templates of the
  configuration are the old ones afterwards (the source returns before the assignment
  of the paths).
\<close>

theorem applyConfig_overwrites_Templates_counterexample:
  "serialized (sample_externals (Inl ''write template: disk full'') None None) sample_config
     (Some ''user-config'') = Inr ''user-config'' \<and>
   list_ex is_PersistTemplates (calls (snd (snd (applyConfig
     (sample_externals (Inl ''write template: disk full'') None None) sample_config
     (Some ''user-config'') (sample_alertmanager ''''))))) \<and>
   fst (persisted (sample_externals (Inl ''write template: disk full'') None None) sample_config
     (sample_alertmanager '''')) = Inl ''write template: disk full'' \<and>
   fst (applyConfig (sample_externals (Inl ''write template: disk full'') None None) sample_config
     (Some ''user-config'') (sample_alertmanager '''')) =
     (False, Some ''write template: disk full'') \<and>
   Templates (AlertmanagerConfig sample_config) = [''old.tmpl''] \<and>
   Templates (AlertmanagerConfig (fst (snd (applyConfig
     (sample_externals (Inl ''write template: disk full'') None None) sample_config
     (Some ''user-config'') (sample_alertmanager ''''))))) = [''old.tmpl'']"
  by (simp add: applyConfig_def sample_externals_def sample_alertmanager_def sample_config_def
      serialized_def persisted_def record_call_def Let_def sample_digest_def)

text \<open>
  C10, amended. In every invocation of \<^verbatim>\<open>applyConfig\<close> that reaches the template
  persistence, the template files of the caller's configuration object are replaced by
  an allocated map holding the former entries and the default template under
  \<^verbatim>\<open>__default__.tmpl\<close>. In every invocation in which the template persistence succeeds,
  \<^verbatim>\<open>cfg.AlertmanagerConfig.Templates\<close> is overwritten with the paths it returned; when it
  fails, the error is returned and \<^verbatim>\<open>cfg.AlertmanagerConfig\<close> is as before. Both mutations
  are there when \<^verbatim>\<open>applyConfig\<close> reports the configuration unchanged.
\<close>

theorem applyConfig_mutates_configuration:
  assumes r: "applyConfig ext cfg rawConfig am = (res, cfg', am')"
    and s: "serialized ext cfg rawConfig = Inr raw"
  shows "TemplateFiles cfg' =
      Some (fmupd ''__default__.tmpl'' (DefaultTemplateString ext)
             (case TemplateFiles cfg of None \<Rightarrow> fmempty | Some m \<Rightarrow> m)) \<and>
    (case fst (persisted ext cfg am) of
       Inl e \<Rightarrow> res = (False, Some e) \<and> AlertmanagerConfig cfg' = AlertmanagerConfig cfg
     | Inr (paths, templatesChanged) \<Rightarrow>
         AlertmanagerConfig cfg' = (AlertmanagerConfig cfg)\<lparr>Templates := paths\<rparr>) \<and>
    (res = (False, None) \<longrightarrow>
       fst (persisted ext cfg am) = Inr (Templates (AlertmanagerConfig cfg'), False) \<and>
       cfg' = (cfg_with_default_template ext cfg)\<lparr>AlertmanagerConfig :=
                (AlertmanagerConfig cfg)\<lparr>Templates := Templates (AlertmanagerConfig cfg')\<rparr>\<rparr>)"
proof (cases rule: applyConfig_cases [where ext = ext and cfg = cfg and rawConfig = rawConfig and am = am])
  case (serialize_error e)
  with s show ?thesis by simp
next
  case (persist_error raw' e fs)
  from r show ?thesis unfolding applyConfig_persist_error [OF persist_error]
    using persist_error by (auto simp add: cfg_with_default_template_def)
next
  case (unchanged raw' paths fs)
  from r show ?thesis unfolding applyConfig_unchanged [OF unchanged]
    using unchanged by (auto simp add: cfg_with_default_template_def)
next
  case (apply_error raw' paths tc fs e b)
  from r show ?thesis unfolding applyConfig_apply_error [OF apply_error]
    using apply_error by (auto simp add: cfg_with_default_template_def)
next
  case (applied raw' paths tc fs b)
  from r show ?thesis unfolding applyConfig_applied [OF applied]
    using applied by (auto simp add: cfg_with_default_template_def)
qed

text \<open>An apply of the sample configuration that reports it unchanged and has mutated it.\<close>

theorem applyConfig_mutates_configuration_witness:
  "serialized (sample_externals (Inr (sample_paths, False)) None None) sample_config
     (Some ''user-config'') = Inr ''user-config'' \<and>
   fst (applyConfig (sample_externals (Inr (sample_paths, False)) None None) sample_config
     (Some ''user-config'') (sample_alertmanager ''user-config'')) = (False, None) \<and>
   TemplateFiles sample_config = None \<and>
   Templates (AlertmanagerConfig sample_config) = [''old.tmpl''] \<and>
   TemplateFiles (fst (snd (applyConfig (sample_externals (Inr (sample_paths, False)) None None)
     sample_config (Some ''user-config'') (sample_alertmanager ''user-config'')))) =
     Some (fmupd ''__default__.tmpl'' ''default template'' fmempty) \<and>
   Templates (AlertmanagerConfig (fst (snd (applyConfig
     (sample_externals (Inr (sample_paths, False)) None None)
     sample_config (Some ''user-config'') (sample_alertmanager ''user-config''))))) = sample_paths"
  using applyConfig_mutates_configuration
    [of "sample_externals (Inr (sample_paths, False)) None None" sample_config
      "Some ''user-config''" "sample_alertmanager ''user-config''"
      "fst (applyConfig (sample_externals (Inr (sample_paths, False)) None None) sample_config
         (Some ''user-config'') (sample_alertmanager ''user-config''))"
      "fst (snd (applyConfig (sample_externals (Inr (sample_paths, False)) None None) sample_config
         (Some ''user-config'') (sample_alertmanager ''user-config'')))"
      "snd (snd (applyConfig (sample_externals (Inr (sample_paths, False)) None None) sample_config
         (Some ''user-config'') (sample_alertmanager ''user-config'')))"
      "''user-config''"]
  by (simp add: applyConfig_def sample_externals_def sample_alertmanager_def sample_config_def
      serialized_def persisted_def cfg_with_default_template_def record_call_def Let_def
      sample_digest_def)

subsection \<open>The persisted bytes are the hashed bytes\<close>




end
